theory Spec2Isabelle
  imports Main "HOL-Library.Word"
begin

section \<open>The login command of two1 (\<^verbatim>\<open>two1/commands/login.py\<close>)\<close>

text \<open>
  The module is a sequence of effects on a terminal, a remote account service, a wallet
  file and a config object. The embedding threads a \<open>world\<close> through every function:
  the world holds what the collaborators will answer (the inputs of a run) and the trace
  of effects performed so far (its outputs), in the order they happen. A Python exception
  is the \<open>Inl\<close> value of the result.
\<close>

subsection \<open>Values, messages, exceptions\<close>

text \<open>The Python values that reach a format call or a config key.\<close>

datatype pyval = PNone | PStr string | PInt int

text \<open>Python truthiness, as \<^verbatim>\<open>if config.username:\<close> and \<^verbatim>\<open>x or y\<close> use it.\<close>

fun truthy :: "pyval \<Rightarrow> bool" where
  "truthy PNone = False"
| "truthy (PStr s) = (s \<noteq> [])"
| "truthy (PInt i) = (i \<noteq> 0)"

text \<open>
  The attributes of \<^verbatim>\<open>UxString\<close> the module reads. The class lives in
  \<^verbatim>\<open>two1.lib.util.uxstring\<close>, outside the module, so a message is named by its
  attribute and not by its text.
\<close>

datatype uxstring =
    No_account_found
  | Registered_usernames_title
  | Login_prompt
  | Login_prompt_invalid_user
  | Login_prompt_user_does_not_exist
  | Login_username
  | Login_password
  | Error_connection_cli
  | Error_server_err

text \<open>
  What is handed to \<^verbatim>\<open>click.secho\<close>: a string built in the module, a
  \<^verbatim>\<open>UxString\<close> attribute, or such an attribute with \<^verbatim>\<open>.format(args)\<close> applied.
\<close>

datatype message = Lit string | Ux uxstring | Ux_format uxstring "pyval list"

datatype exn =
    DataProviderUnavailableError
  | DataProviderError
  | UnloggedException
  | TwoOneError uxstring
  | SystemExit int
  | Abort
  | NameError string
  | AttributeError string
  | IndexError
  | Other_exception string

subsection \<open>Machine identity and base64\<close>

text \<open>\<^verbatim>\<open>machine_auth.public_key.compressed_bytes\<close> is all the module reads of an identity.\<close>

record machine_identity =
  compressed_bytes :: "8 word list"

definition b64_alphabet :: string where
  "b64_alphabet = ''ABCDEFGHIJKLMNOPQRSTUVWXYZabcdefghijklmnopqrstuvwxyz0123456789+/''"

definition b64_char :: "nat \<Rightarrow> char" where
  "b64_char n = b64_alphabet ! (n mod 64)"

text \<open>\<^verbatim>\<open>base64.b64encode(bs).decode()\<close>: three bytes give four characters, the rest is padded.\<close>

fun b64encode :: "8 word list \<Rightarrow> string" where
  "b64encode (a # b # c # rest) =
     (let n = unat a * 65536 + unat b * 256 + unat c
      in b64_char (n div 262144) # b64_char (n div 4096) # b64_char (n div 64) # b64_char n
           # b64encode rest)"
| "b64encode [a, b] =
     (let n = unat a * 65536 + unat b * 256
      in [b64_char (n div 262144), b64_char (n div 4096), b64_char (n div 64), CHR ''='']) "
| "b64encode [a] =
     (let n = unat a * 65536
      in [b64_char (n div 262144), b64_char (n div 4096), CHR ''='', CHR ''=''])"
| "b64encode [] = []"

subsection \<open>Decimal rendering\<close>

text \<open>\<^verbatim>\<open>"{}".format(n)\<close> for a counter that starts at 1 and only grows.\<close>

fun str_nat :: "nat \<Rightarrow> string" where
  "str_nat n =
     (if n < 10 then [''0123456789'' ! n]
      else str_nat (n div 10) @ [''0123456789'' ! (n mod 10)])"

declare str_nat.simps [simp del]

text \<open>\<^verbatim>\<open>"{}".format(v)\<close> for the values a config attribute can hold.\<close>

fun str_pyval :: "pyval \<Rightarrow> string" where
  "str_pyval PNone = ''None''"
| "str_pyval (PStr s) = s"
| "str_pyval (PInt i) = (if i < 0 then CHR ''-'' # str_nat (nat (- i)) else str_nat (nat i))"

subsection \<open>Config, world and effects\<close>

text \<open>
  Modelled from the spec: the class \<^verbatim>\<open>Config\<close> of \<^verbatim>\<open>two1.commands.config\<close> is not
  part of the module. The spec describes it as a key-value store with an in-memory view
  that \<^verbatim>\<open>load\<close> refreshes from the backing store, \<^verbatim>\<open>update_key\<close> mutates and
  \<^verbatim>\<open>save\<close> flushes to the backing store. The in-memory view is \<open>attrs\<close>; the module
  reads it as attributes (\<^verbatim>\<open>config.username\<close>, \<^verbatim>\<open>hasattr(config, "username")\<close>).
  \<open>machine_auth_attr\<close> is the cached identity \<^verbatim>\<open>config.machine_auth\<close>, \<open>None\<close> when \<^verbatim>\<open>hasattr(config, "machine_auth")\<close>
  is false.
\<close>

record config =
  attrs :: "string \<rightharpoonup> pyval"
  machine_auth_attr :: "machine_identity option"

datatype event =
    Secho message
  | Print string
  | Prompt uxstring
  | Prompt_hidden uxstring
  | Get_password pyval
  | TwentyOneProvider_new
  | Check_wallet_file
  | Wallet_new
  | Rest_client_new "machine_identity option" pyval
  | Account_info
  | Update_password string
  | Config_new
  | Check_setup_twentyone_account
  | Config_load
  | Config_update_key string string
  | Config_save

text \<open>
  The world of one invocation. Inputs: \<open>wallet_file\<close> is the identity the wallet at
  \<^verbatim>\<open>Two1Wallet.DEFAULT_WALLET_PATH\<close> yields, \<open>None\<close> when \<^verbatim>\<open>check_wallet_file\<close> is false;
  \<open>account_info_response\<close> is what \<^verbatim>\<open>client.account_info().json()["usernames"]\<close> gives;
  \<open>setup_outcome\<close> is how \<^verbatim>\<open>check_setup_twentyone_account\<close> ends; \<open>password_entry\<close> is
  what \<^verbatim>\<open>get_password\<close> returns, \<open>None\<close> when the user aborts; \<open>answers_int\<close> and
  \<open>answers_str\<close> are the values successive \<^verbatim>\<open>click.prompt\<close> calls return for
  \<^verbatim>\<open>type=int\<close> and \<^verbatim>\<open>type=str\<close>, and at the end of the input \<^verbatim>\<open>click.prompt\<close>
  raises \<^verbatim>\<open>Abort\<close>. State: \<open>cfg\<close> is the config object of the command, \<open>disk\<close> its
  backing store, \<open>trace\<close> the effects so far, oldest first.
\<close>

record world =
  cfg :: config
  disk :: "string \<rightharpoonup> pyval"
  wallet_file :: "machine_identity option"
  account_info_response :: "exn + string list"
  setup_outcome :: "exn + unit"
  password_entry :: "string option"
  answers_int :: "int list"
  answers_str :: "string list"
  trace :: "event list"

type_synonym 'a io = "world \<Rightarrow> (exn + 'a) \<times> world"

definition io_return :: "'a \<Rightarrow> 'a io" where
  "io_return x w = (Inr x, w)"

definition io_raise :: "exn \<Rightarrow> 'a io" where
  "io_raise e w = (Inl e, w)"

definition io_bind :: "'a io \<Rightarrow> ('a \<Rightarrow> 'b io) \<Rightarrow> 'b io" where
  "io_bind m f w = (case m w of (Inl e, w') \<Rightarrow> (Inl e, w') | (Inr x, w') \<Rightarrow> f x w')"

definition io_seq :: "unit io \<Rightarrow> 'b io \<Rightarrow> 'b io" where
  "io_seq m k = io_bind m (\<lambda>_. k)"

text \<open>A block of statements, run in order; the first exception ends it.\<close>

fun io_steps :: "unit io list \<Rightarrow> unit io" where
  "io_steps [] = io_return ()"
| "io_steps (s # ss) = io_seq s (io_steps ss)"

definition emit :: "event \<Rightarrow> unit io" where
  "emit e w = (Inr (), w\<lparr>trace := trace w @ [e]\<rparr>)"

definition secho :: "message \<Rightarrow> unit io" where
  "secho t = emit (Secho t)"

definition print :: "string \<Rightarrow> unit io" where
  "print s = emit (Print s)"

text \<open>\<^verbatim>\<open>click.prompt(text, type=int)\<close>.\<close>

definition prompt_int :: "uxstring \<Rightarrow> int io" where
  "prompt_int t w =
     (case answers_int w of
        [] \<Rightarrow> (Inl Abort, w\<lparr>trace := trace w @ [Prompt t]\<rparr>)
      | i # rest \<Rightarrow> (Inr i, w\<lparr>answers_int := rest, trace := trace w @ [Prompt t]\<rparr>))"

text \<open>\<^verbatim>\<open>click.prompt(text, type=str)\<close>, with \<^verbatim>\<open>hide_input\<close> as the flag.\<close>

definition prompt_str :: "uxstring \<Rightarrow> bool \<Rightarrow> string io" where
  "prompt_str t hide w =
     (let ev = (if hide then Prompt_hidden t else Prompt t)
      in case answers_str w of
           [] \<Rightarrow> (Inl Abort, w\<lparr>trace := trace w @ [ev]\<rparr>)
         | s # rest \<Rightarrow> (Inr s, w\<lparr>answers_str := rest, trace := trace w @ [ev]\<rparr>))"

text \<open>Attribute access on the config object: a missing attribute raises.\<close>

definition config_getattr :: "string \<Rightarrow> pyval io" where
  "config_getattr k w =
     (case attrs (cfg w) k of None \<Rightarrow> (Inl (AttributeError k), w) | Some v \<Rightarrow> (Inr v, w))"

definition config_load :: "unit io" where
  "config_load w =
     (Inr (), w\<lparr>cfg := (cfg w)\<lparr>attrs := disk w\<rparr>, trace := trace w @ [Config_load]\<rparr>)"

definition config_update_key :: "string \<Rightarrow> string \<Rightarrow> unit io" where
  "config_update_key k v w =
     (Inr (), w\<lparr>cfg := (cfg w)\<lparr>attrs := (attrs (cfg w))(k \<mapsto> PStr v)\<rparr>,
                trace := trace w @ [Config_update_key k v]\<rparr>)"

definition config_save :: "unit io" where
  "config_save w = (Inr (), w\<lparr>disk := attrs (cfg w), trace := trace w @ [Config_save]\<rparr>)"

text \<open>\<^verbatim>\<open>xs[i]\<close> on a list: positions below zero are read from the back.\<close>

definition py_getitem :: "'a list \<Rightarrow> int \<Rightarrow> exn + 'a" where
  "py_getitem xs i =
     (if 0 \<le> i \<and> i < int (length xs) then Inr (xs ! nat i)
      else if i < 0 \<and> - int (length xs) \<le> i then Inr (xs ! nat (int (length xs) + i))
      else Inl IndexError)"

definition io_of_result :: "exn + 'a \<Rightarrow> 'a io" where
  "io_of_result r w = (r, w)"

definition io_get :: "(world \<Rightarrow> 'a) \<Rightarrow> 'a io" where
  "io_get f w = (Inr (f w), w)"

text \<open>\<^verbatim>\<open>try: body except ...\<close>: the handler receives the exception the body raised.\<close>

definition io_try :: "'a io \<Rightarrow> (exn \<Rightarrow> 'a io) \<Rightarrow> 'a io" where
  "io_try body handler w =
     (case body w of (Inl e, w') \<Rightarrow> handler e w' | (Inr x, w') \<Rightarrow> (Inr x, w'))"

text \<open>\<^verbatim>\<open>hasattr(config, k)\<close>.\<close>

definition config_hasattr :: "string \<Rightarrow> bool io" where
  "config_hasattr k = io_get (\<lambda>w. attrs (cfg w) k \<noteq> None)"

subsection \<open>The collaborators the module calls\<close>

text \<open>
  Each call of a function that lives outside the module is an event of the trace; what
  the call answers is read from the world. What the call does inside its own library
  (the wallet, the REST transport, the account registration) is not part of the module.
\<close>

definition check_setup_twentyone_account :: "unit io" where
  "check_setup_twentyone_account w =
     (setup_outcome w, w\<lparr>trace := trace w @ [Check_setup_twentyone_account]\<rparr>)"

definition check_wallet_file :: "bool io" where
  "check_wallet_file w =
     (Inr (wallet_file w \<noteq> None), w\<lparr>trace := trace w @ [Check_wallet_file]\<rparr>)"

text \<open>\<^verbatim>\<open>MachineAuthWallet(Wallet(wallet_path=..., data_provider=dp))\<close>.\<close>

definition wallet_new :: "machine_identity io" where
  "wallet_new w =
     (case wallet_file w of
        None \<Rightarrow> (Inl (Other_exception ''Wallet''), w\<lparr>trace := trace w @ [Wallet_new]\<rparr>)
      | Some m \<Rightarrow> (Inr m, w\<lparr>trace := trace w @ [Wallet_new]\<rparr>))"

text \<open>\<^verbatim>\<open>client.account_info().json()["usernames"]\<close>.\<close>

definition account_info :: "string list io" where
  "account_info w = (account_info_response w, w\<lparr>trace := trace w @ [Account_info]\<rparr>)"

definition get_password :: "pyval \<Rightarrow> string io" where
  "get_password u w =
     (case password_entry w of
        None \<Rightarrow> (Inl Abort, w\<lparr>trace := trace w @ [Get_password u]\<rparr>)
      | Some p \<Rightarrow> (Inr p, w\<lparr>trace := trace w @ [Get_password u]\<rparr>))"

subsection \<open>The module\<close>

text \<open>
  The decorators \<^verbatim>\<open>json_output\<close>, \<^verbatim>\<open>capture_usage\<close> and \<^verbatim>\<open>check_notifications\<close> are
  imported from other modules; the functions below are the decorated bodies.
\<close>

text \<open>The \<^verbatim>\<open>except\<close> clauses of \<^verbatim>\<open>create_wallet_and_account\<close>, in the source's order.\<close>

fun create_wallet_and_account_except :: "exn \<Rightarrow> unit io" where
  "create_wallet_and_account_except DataProviderUnavailableError =
     io_raise (TwoOneError Error_connection_cli)"
| "create_wallet_and_account_except DataProviderError =
     io_raise (TwoOneError Error_server_err)"
| "create_wallet_and_account_except UnloggedException = io_raise (SystemExit 1)"
| "create_wallet_and_account_except e = io_raise e"

definition create_wallet_and_account :: "unit io" where
  "create_wallet_and_account =
     io_try (io_seq (emit Config_new) check_setup_twentyone_account)
       create_wallet_and_account_except"

text \<open>
  \<^verbatim>\<open>save_config\<close>: the encoding is computed first, then the five statements run in
  order.
\<close>

definition save_config_steps :: "machine_identity \<Rightarrow> string \<Rightarrow> unit io list" where
  "save_config_steps machine_auth username =
     (let machine_auth_pubkey_b64 = b64encode (compressed_bytes machine_auth)
      in [secho (Lit (''Logging in '' @ username)),
          config_load,
          config_update_key ''username'' username,
          config_update_key ''mining_auth_pubkey'' machine_auth_pubkey_b64,
          config_save])"

definition save_config :: "machine_identity \<Rightarrow> string \<Rightarrow> unit io" where
  "save_config machine_auth username = io_steps (save_config_steps machine_auth username)"

text \<open>The \<^verbatim>\<open>for user in usernames\<close> loop of \<^verbatim>\<open>_login\<close>, with its counter.\<close>

fun display_usernames :: "nat \<Rightarrow> string list \<Rightarrow> unit io" where
  "display_usernames counter [] = io_return ()"
| "display_usernames counter (user # usernames) =
     io_seq (secho (Lit (str_nat counter @ ''- '' @ user)))
       (display_usernames (counter + 1) usernames)"

text \<open>
  The \<^verbatim>\<open>while\<close> loop of \<^verbatim>\<open>_login\<close>; the first argument is \<^verbatim>\<open>username_index\<close>. Every
  round consumes one answer of the terminal, and the end of the input raises
  \<^verbatim>\<open>Abort\<close> in \<^verbatim>\<open>click.prompt\<close>, so the loop ends on every world.
\<close>

function prompt_loop :: "int \<Rightarrow> string list \<Rightarrow> int io" where
  "prompt_loop username_index usernames w =
     (if username_index \<le> 0 \<or> username_index > int (length usernames) then
        (case prompt_int Login_prompt w of
           (Inl e, w') \<Rightarrow> (Inl e, w')
         | (Inr i, w') \<Rightarrow>
             (if i \<le> 0 \<or> i > int (length usernames) then
                prompt_loop i usernames
                  (snd (secho (Ux_format Login_prompt_invalid_user
                                 [PInt 1, PInt (int (length usernames))]) w'))
              else prompt_loop i usernames w'))
      else (Inr username_index, w))"
  by pat_completeness auto
termination
  by (relation "measure (\<lambda>(i, us, w). length (answers_int w))")
     (auto simp: prompt_int_def secho_def emit_def split: list.splits)

declare prompt_loop.simps [simp del]

text \<open>Lines 127 to 163 of \<^verbatim>\<open>_login\<close>: what follows once the machine auth is at hand.\<close>

definition login_with_machine_auth :: "string option \<Rightarrow> machine_identity \<Rightarrow> unit io" where
  "login_with_machine_auth user machine_auth =
     io_seq (emit (Rest_client_new (Some machine_auth) PNone))
       (io_bind account_info (\<lambda>usernames.
          if length usernames = 0 then create_wallet_and_account
          else
            (case user of
               None \<Rightarrow>
                 io_seq (secho (Ux Registered_usernames_title))
                   (io_seq (display_usernames 1 usernames)
                      (io_bind (prompt_loop (- 1) usernames) (\<lambda>username_index.
                         io_bind (io_of_result (py_getitem usernames (username_index - 1)))
                           (\<lambda>username. save_config machine_auth username))))
             | Some u \<Rightarrow>
                 if u \<in> set usernames then save_config machine_auth u
                 else secho (Ux_format Login_prompt_user_does_not_exist [PStr u]))))"

text \<open>\<^verbatim>\<open>_login(config, user)\<close>.\<close>

definition p_login :: "string option \<Rightarrow> unit io" where
  "p_login user =
     io_bind (config_getattr ''username'') (\<lambda>current.
       io_seq (if truthy current
               then secho (Lit (''Currently logged in as: '' @ str_pyval current))
               else io_return ())
         (io_bind (io_get (\<lambda>w. machine_auth_attr (cfg w))) (\<lambda>cached.
            case cached of
              Some machine_auth \<Rightarrow> login_with_machine_auth user machine_auth
            | None \<Rightarrow>
                io_seq (emit TwentyOneProvider_new)
                  (io_bind check_wallet_file (\<lambda>present.
                     if \<not> present then create_wallet_and_account
                     else io_bind wallet_new (login_with_machine_auth user))))))"

text \<open>\<^verbatim>\<open>get_machine_auth(config)\<close>: \<open>None\<close> is Python's \<^verbatim>\<open>None\<close> of the bare \<^verbatim>\<open>return\<close>.\<close>

definition get_machine_auth :: "machine_identity option io" where
  "get_machine_auth =
     io_bind (io_get (\<lambda>w. machine_auth_attr (cfg w))) (\<lambda>cached.
       case cached of
         Some machine_auth \<Rightarrow> io_return (Some machine_auth)
       | None \<Rightarrow>
           io_seq (emit TwentyOneProvider_new)
             (io_bind check_wallet_file (\<lambda>present.
                if \<not> present then io_seq create_wallet_and_account (io_return None)
                else io_bind wallet_new (\<lambda>machine_auth. io_return (Some machine_auth)))))"

text \<open>\<^verbatim>\<open>_set_password(config, user)\<close>; only \<^verbatim>\<open>click.exceptions.Abort\<close> is caught.\<close>

fun set_password_except :: "exn \<Rightarrow> unit io" where
  "set_password_except Abort = io_return ()"
| "set_password_except e = io_raise e"

definition p_set_password :: "string option \<Rightarrow> unit io" where
  "p_set_password user =
     io_try
       (io_bind (config_hasattr ''username'') (\<lambda>has.
          if \<not> has then secho (Ux No_account_found)
          else
            io_bind (config_getattr ''username'') (\<lambda>u.
            io_bind (get_password u) (\<lambda>password.
            io_bind get_machine_auth (\<lambda>machine_auth.
            io_bind (config_getattr ''username'') (\<lambda>u'.
            io_seq (emit (Rest_client_new machine_auth u'))
              (emit (Update_password password))))))))
       set_password_except"

definition login_with_username_password :: "string \<Rightarrow> string \<Rightarrow> unit io" where
  "login_with_username_password username password =
     io_steps [print ''-----'', print username, print password]"

definition get_username_interactive :: "string io" where
  "get_username_interactive = prompt_str Login_username False"

definition get_password_interactive :: "string io" where
  "get_password_interactive = prompt_str Login_password True"

text \<open>Truthiness of an option of the command line: \<open>None\<close> is the default \<^verbatim>\<open>None\<close>.\<close>

fun truthy_opt :: "string option \<Rightarrow> bool" where
  "truthy_opt None = False"
| "truthy_opt (Some s) = (s \<noteq> [])"

text \<open>
  \<^verbatim>\<open>login(config, accounts, switchuser, setpassword, username, password)\<close>. The name
  \<^verbatim>\<open>_switch_user\<close> is bound nowhere in the module, so evaluating it raises
  \<^verbatim>\<open>NameError\<close>.
\<close>

definition login ::
  "bool \<Rightarrow> string option \<Rightarrow> bool \<Rightarrow> string option \<Rightarrow> string option \<Rightarrow> unit io" where
  "login accounts switchuser setpassword username password =
     (if setpassword then p_set_password switchuser
      else if truthy_opt switchuser \<or> accounts then io_raise (NameError ''_switch_user'')
      else
        io_bind (if truthy_opt username then io_return (the username)
                 else get_username_interactive) (\<lambda>username.
        io_bind (if truthy_opt password then io_return (the password)
                 else get_password_interactive) (\<lambda>password.
        login_with_username_password username password)))"

subsection \<open>Sample runs\<close>

text \<open>
  A compressed public key of 33 bytes, and a world in which the wallet file yields it,
  the account service reports two usernames and the user answers the numeric prompt
  with 5 and then 1. The backing store holds a key the module never writes.
\<close>

definition sample_identity :: machine_identity where
  "sample_identity =
     \<lparr>compressed_bytes =
        [2, 121, 190, 102, 126, 249, 220, 187, 172, 85, 160, 98, 149, 206, 135, 11, 7,
         2, 155, 252, 219, 45, 206, 40, 217, 89, 242, 129, 91, 22, 248, 23, 152]\<rparr>"

definition sample_world :: world where
  "sample_world =
     \<lparr>cfg = \<lparr>attrs = [''username'' \<mapsto> PStr ''carol''], machine_auth_attr = None\<rparr>,
      disk = [''username'' \<mapsto> PStr ''carol'', ''sellprice'' \<mapsto> PInt 10000],
      wallet_file = Some sample_identity,
      account_info_response = Inr [''alice'', ''bob''],
      setup_outcome = Inr (),
      password_entry = Some ''hunter2'',
      answers_int = [5, 1],
      answers_str = [],
      trace = []\<rparr>"

section \<open>Properties\<close>

subsection \<open>How the effects compose\<close>

lemma io_bind_return [simp]: "io_bind (io_return x) f w = f x w"
  by (simp add: io_bind_def io_return_def)

lemma io_bind_raise [simp]: "io_bind (io_raise e) f w = (Inl e, w)"
  by (simp add: io_bind_def io_raise_def)

lemma io_bind_get [simp]: "io_bind (io_get g) f w = f (g w) w"
  by (simp add: io_bind_def io_get_def)

lemma io_seq_return [simp]: "io_seq (io_return ()) k w = k w"
  by (simp add: io_seq_def)

lemma io_seq_emit [simp]: "io_seq (emit e) k w = k (w\<lparr>trace := trace w @ [e]\<rparr>)"
  by (simp add: io_seq_def io_bind_def emit_def)

lemma io_seq_secho [simp]: "io_seq (secho t) k w = k (w\<lparr>trace := trace w @ [Secho t]\<rparr>)"
  by (simp add: secho_def)

lemma io_seq_print [simp]: "io_seq (print s) k w = k (w\<lparr>trace := trace w @ [Print s]\<rparr>)"
  by (simp add: print_def)

lemma io_bind_Inr: "m w = (Inr x, w') \<Longrightarrow> io_bind m f w = f x w'"
  by (simp add: io_bind_def)

lemma io_seq_Inr: "m w = (Inr (), w') \<Longrightarrow> io_seq m k w = k w'"
  by (simp add: io_seq_def io_bind_def)

lemma io_bind_config_getattr:
  "attrs (cfg w) key = Some v \<Longrightarrow> io_bind (config_getattr key) f w = f v w"
  by (simp add: io_bind_def config_getattr_def)

lemma io_bind_check_wallet_file [simp]:
  "io_bind check_wallet_file f w =
     f (wallet_file w \<noteq> None) (w\<lparr>trace := trace w @ [Check_wallet_file]\<rparr>)"
  by (simp add: io_bind_def check_wallet_file_def)

lemma io_bind_wallet_new:
  "wallet_file w = Some m \<Longrightarrow>
   io_bind wallet_new f w = f m (w\<lparr>trace := trace w @ [Wallet_new]\<rparr>)"
  by (simp add: io_bind_def wallet_new_def)

lemma io_bind_account_info:
  "account_info_response w = Inr usernames \<Longrightarrow>
   io_bind account_info f w = f usernames (w\<lparr>trace := trace w @ [Account_info]\<rparr>)"
  by (simp add: io_bind_def account_info_def)

lemma create_wallet_and_account_result:
  "create_wallet_and_account w =
     (case setup_outcome w of
        Inr u \<Rightarrow> Inr u
      | Inl e \<Rightarrow>
          Inl (if e = DataProviderUnavailableError then TwoOneError Error_connection_cli
               else if e = DataProviderError then TwoOneError Error_server_err
               else if e = UnloggedException then SystemExit 1
               else e),
      w\<lparr>trace := trace w @ [Config_new, Check_setup_twentyone_account]\<rparr>)"
proof (cases "setup_outcome w")
  case (Inl e)
  then show ?thesis
    by (cases e)
       (simp_all add: create_wallet_and_account_def io_try_def check_setup_twentyone_account_def
          io_raise_def)
next
  case (Inr u)
  then show ?thesis
    by (simp add: create_wallet_and_account_def io_try_def check_setup_twentyone_account_def)
qed

lemma display_usernames_result:
  "display_usernames counter usernames w =
     (Inr (), w\<lparr>trace := trace w @
        map (\<lambda>(k, user). Secho (Lit (str_nat k @ ''- '' @ user))) (enumerate counter usernames)\<rparr>)"
  by (induction usernames arbitrary: counter w) (simp_all add: io_return_def)

lemma prompt_loop_result:
  assumes "\<forall>j \<in> set rejected. j \<le> 0 \<or> j > int (length usernames)"
    and "username_index \<le> 0 \<or> username_index > int (length usernames)"
    and "1 \<le> i" and "i \<le> int (length usernames)"
    and "answers_int w = rejected @ i # rest"
  shows "prompt_loop username_index usernames w =
     (Inr i, w\<lparr>answers_int := rest,
              trace := trace w @
                concat (map (\<lambda>j. [Prompt Login_prompt,
                  Secho (Ux_format Login_prompt_invalid_user
                           [PInt 1, PInt (int (length usernames))])]) rejected) @
                [Prompt Login_prompt]\<rparr>)"
  using assms
proof (induction rejected arbitrary: username_index w)
  case Nil
  then show ?case
    by (subst prompt_loop.simps, subst prompt_loop.simps) (simp add: prompt_int_def)
next
  case (Cons j rejected)
  from Cons.prems have j: "j \<le> 0 \<or> j > int (length usernames)" by simp
  let ?w' = "w\<lparr>answers_int := rejected @ i # rest,
                trace := trace w @ [Prompt Login_prompt,
                  Secho (Ux_format Login_prompt_invalid_user
                           [PInt 1, PInt (int (length usernames))])]\<rparr>"
  have step: "prompt_loop username_index usernames w = prompt_loop j usernames ?w'"
    using Cons.prems j
    by (subst prompt_loop.simps) (simp add: prompt_int_def secho_def emit_def)
  have "prompt_loop j usernames ?w' =
     (Inr i, ?w'\<lparr>answers_int := rest,
              trace := trace ?w' @
                concat (map (\<lambda>j. [Prompt Login_prompt,
                  Secho (Ux_format Login_prompt_invalid_user
                           [PInt 1, PInt (int (length usernames))])]) rejected) @
                [Prompt Login_prompt]\<rparr>)"
    using Cons.prems j by (intro Cons.IH) simp_all
  with step show ?case by simp
qed

lemma py_getitem_in_range:
  "1 \<le> i \<Longrightarrow> i \<le> int (length xs) \<Longrightarrow> py_getitem xs (i - 1) = Inr (xs ! nat (i - 1))"
  by (simp add: py_getitem_def)

lemma p_login_reaches_account_lookup:
  assumes "attrs (cfg w) ''username'' = Some current"
    and "machine_auth_attr (cfg w) = Some m \<and> pre = [] \<or>
         machine_auth_attr (cfg w) = None \<and> wallet_file w = Some m \<and>
         pre = [TwentyOneProvider_new, Check_wallet_file, Wallet_new]"
  shows "p_login user w =
     login_with_machine_auth user m
       (w\<lparr>trace := trace w @
          (if truthy current
           then [Secho (Lit (''Currently logged in as: '' @ str_pyval current))] else []) @
          pre\<rparr>)"
  using assms by (auto simp: p_login_def io_bind_config_getattr io_bind_wallet_new)

lemma io_seq_config_load [simp]:
  "io_seq config_load k w =
     k (w\<lparr>cfg := (cfg w)\<lparr>attrs := disk w\<rparr>, trace := trace w @ [Config_load]\<rparr>)"
  by (simp add: io_seq_def io_bind_def config_load_def)

lemma io_seq_config_update_key [simp]:
  "io_seq (config_update_key key v) k w =
     k (w\<lparr>cfg := (cfg w)\<lparr>attrs := (attrs (cfg w))(key \<mapsto> PStr v)\<rparr>,
          trace := trace w @ [Config_update_key key v]\<rparr>)"
  by (simp add: io_seq_def io_bind_def config_update_key_def)

lemma io_seq_config_save [simp]:
  "io_seq config_save k w = k (w\<lparr>disk := attrs (cfg w), trace := trace w @ [Config_save]\<rparr>)"
  by (simp add: io_seq_def io_bind_def config_save_def)

lemma save_config_result:
  "save_config machine_auth username w =
     (Inr (),
      w\<lparr>cfg := (cfg w)\<lparr>attrs := (disk w)
             (''username'' \<mapsto> PStr username,
              ''mining_auth_pubkey'' \<mapsto> PStr (b64encode (compressed_bytes machine_auth)))\<rparr>,
        disk := (disk w)
             (''username'' \<mapsto> PStr username,
              ''mining_auth_pubkey'' \<mapsto> PStr (b64encode (compressed_bytes machine_auth))),
        trace := trace w @
          [Secho (Lit (''Logging in '' @ username)), Config_load,
           Config_update_key ''username'' username,
           Config_update_key ''mining_auth_pubkey'' (b64encode (compressed_bytes machine_auth)),
           Config_save]\<rparr>)"
  by (simp add: save_config_def save_config_steps_def io_return_def)

lemma save_config_interrupted:
  assumes "k < length (save_config_steps machine_auth username)"
  shows "disk (snd (io_steps (take k (save_config_steps machine_auth username)) w)) = disk w"
proof -
  from assms have "k < 5" by (simp add: save_config_steps_def)
  then consider "k = 0" | "k = 1" | "k = 2" | "k = 3" | "k = 4" by arith
  then show ?thesis
    by cases (simp_all add: save_config_steps_def io_return_def numeral_eq_Suc)
qed

subsection \<open>Interactive selection\<close>

lemma io_seq_display_usernames:
  "io_seq (display_usernames counter usernames) k w =
     k (w\<lparr>trace := trace w @
        map (\<lambda>(k, user). Secho (Lit (str_nat k @ ''- '' @ user))) (enumerate counter usernames)\<rparr>)"
  by (simp add: io_seq_def io_bind_def display_usernames_result)

lemma io_bind_prompt_loop:
  assumes "\<forall>j \<in> set rejected. j \<le> 0 \<or> j > int (length usernames)"
    and "username_index \<le> 0 \<or> username_index > int (length usernames)"
    and "1 \<le> i" and "i \<le> int (length usernames)"
    and "answers_int w = rejected @ i # rest"
  shows "io_bind (prompt_loop username_index usernames) f w =
     f i (w\<lparr>answers_int := rest,
            trace := trace w @
              concat (map (\<lambda>j. [Prompt Login_prompt,
                Secho (Ux_format Login_prompt_invalid_user
                         [PInt 1, PInt (int (length usernames))])]) rejected) @
              [Prompt Login_prompt]\<rparr>)"
  by (simp add: io_bind_def prompt_loop_result [OF assms])

lemma login_with_machine_auth_interactive:
  assumes "account_info_response w = Inr usernames"
    and "usernames \<noteq> []"
    and "answers_int w = rejected @ i # rest"
    and "\<forall>j \<in> set rejected. j \<le> 0 \<or> j > int (length usernames)"
    and "1 \<le> i" and "i \<le> int (length usernames)"
  shows "login_with_machine_auth None m w =
     save_config m (usernames ! nat (i - 1))
       (w\<lparr>answers_int := rest,
          trace := trace w @
            [Rest_client_new (Some m) PNone, Account_info,
             Secho (Ux Registered_usernames_title)] @
            map (\<lambda>(k, user). Secho (Lit (str_nat k @ ''- '' @ user))) (enumerate 1 usernames) @
            concat (map (\<lambda>j. [Prompt Login_prompt,
                      Secho (Ux_format Login_prompt_invalid_user
                               [PInt 1, PInt (int (length usernames))])]) rejected) @
            [Prompt Login_prompt]\<rparr>)"
proof -
  have "login_with_machine_auth None m w =
     io_bind (prompt_loop (- 1) usernames) (\<lambda>username_index.
        io_bind (io_of_result (py_getitem usernames (username_index - 1)))
          (\<lambda>username. save_config m username))
       (w\<lparr>trace := trace w @
            [Rest_client_new (Some m) PNone, Account_info,
             Secho (Ux Registered_usernames_title)] @
            map (\<lambda>(k, user). Secho (Lit (str_nat k @ ''- '' @ user)))
              (enumerate 1 usernames)\<rparr>)"
    using assms(1,2)
    by (simp add: login_with_machine_auth_def io_bind_account_info io_seq_display_usernames)
  also have "\<dots> =
     io_bind (io_of_result (py_getitem usernames (i - 1))) (\<lambda>username. save_config m username)
       (w\<lparr>answers_int := rest,
          trace := trace w @
            [Rest_client_new (Some m) PNone, Account_info,
             Secho (Ux Registered_usernames_title)] @
            map (\<lambda>(k, user). Secho (Lit (str_nat k @ ''- '' @ user))) (enumerate 1 usernames) @
            concat (map (\<lambda>j. [Prompt Login_prompt,
                      Secho (Ux_format Login_prompt_invalid_user
                               [PInt 1, PInt (int (length usernames))])]) rejected) @
            [Prompt Login_prompt]\<rparr>)"
    using assms(3-6)
    by (subst io_bind_prompt_loop [where rejected = rejected and i = i and rest = rest])
       simp_all
  finally show ?thesis
    using assms(5,6) by (simp add: py_getitem_in_range io_bind_def io_of_result_def)
qed

text \<open>
  C1. Take a run of \<^verbatim>\<open>_login\<close> with no explicit username that reaches the account
  lookup (the config has a \<^verbatim>\<open>username\<close> attribute, and the machine auth is cached or the
  wallet file yields it) and receives a non-empty list of usernames. The run prints the
  title and then the usernames numbered from 1 in the order received. It then prompts for
  an integer: every answer \<open>j\<close> with \<open>j \<le> 0\<close> or \<open>j > n\<close> is followed by the message
  \<^verbatim>\<open>login_prompt_invalid_user.format(1, n)\<close> and a new prompt, and the first answer \<open>i\<close>
  with \<open>1 \<le> i \<le> n\<close> ends the loop. The username at position \<open>i - 1\<close> of the list is what
  \<^verbatim>\<open>save_config\<close> is called with, in the world where exactly these effects have happened
  and exactly these answers are consumed.
\<close>

theorem login_interactive_selection:
  assumes "attrs (cfg w) ''username'' = Some current"
    and "machine_auth_attr (cfg w) = Some m \<and> pre = [] \<or>
         machine_auth_attr (cfg w) = None \<and> wallet_file w = Some m \<and>
         pre = [TwentyOneProvider_new, Check_wallet_file, Wallet_new]"
    and "account_info_response w = Inr usernames"
    and "usernames \<noteq> []"
    and "answers_int w = rejected @ i # rest"
    and "\<forall>j \<in> set rejected. j \<le> 0 \<or> j > int (length usernames)"
    and "1 \<le> i" and "i \<le> int (length usernames)"
  shows "p_login None w =
     save_config m (usernames ! nat (i - 1))
       (w\<lparr>answers_int := rest,
          trace := trace w @
            (if truthy current
             then [Secho (Lit (''Currently logged in as: '' @ str_pyval current))] else []) @
            pre @
            [Rest_client_new (Some m) PNone, Account_info,
             Secho (Ux Registered_usernames_title)] @
            map (\<lambda>(k, user). Secho (Lit (str_nat k @ ''- '' @ user))) (enumerate 1 usernames) @
            concat (map (\<lambda>j. [Prompt Login_prompt,
                      Secho (Ux_format Login_prompt_invalid_user
                               [PInt 1, PInt (int (length usernames))])]) rejected) @
            [Prompt Login_prompt]\<rparr>)"
proof -
  have "p_login None w =
     login_with_machine_auth None m
       (w\<lparr>trace := trace w @
          (if truthy current
           then [Secho (Lit (''Currently logged in as: '' @ str_pyval current))] else []) @
          pre\<rparr>)"
    using assms(1,2) by (rule p_login_reaches_account_lookup)
  also have "\<dots> = save_config m (usernames ! nat (i - 1))
       (w\<lparr>answers_int := rest,
          trace := trace w @
            (if truthy current
             then [Secho (Lit (''Currently logged in as: '' @ str_pyval current))] else []) @
            pre @
            [Rest_client_new (Some m) PNone, Account_info,
             Secho (Ux Registered_usernames_title)] @
            map (\<lambda>(k, user). Secho (Lit (str_nat k @ ''- '' @ user))) (enumerate 1 usernames) @
            concat (map (\<lambda>j. [Prompt Login_prompt,
                      Secho (Ux_format Login_prompt_invalid_user
                               [PInt 1, PInt (int (length usernames))])]) rejected) @
            [Prompt Login_prompt]\<rparr>)"
    using assms(3-8)
    by (subst login_with_machine_auth_interactive
          [where usernames = usernames and rejected = rejected and i = i and rest = rest])
       simp_all
  finally show ?thesis .
qed

text \<open>
  The run of the sample world: two usernames, the answers 5 and 1. One rejection message
  is printed for 5, and \<^verbatim>\<open>alice\<close> is saved.
\<close>

theorem login_interactive_selection_witness:
  "attrs (cfg sample_world) ''username'' = Some (PStr ''carol'') \<and>
   machine_auth_attr (cfg sample_world) = None \<and>
   wallet_file sample_world = Some sample_identity \<and>
   account_info_response sample_world = Inr [''alice'', ''bob''] \<and>
   answers_int sample_world = [5] @ 1 # [] \<and>
   ((5 :: int) \<le> 0 \<or> 5 > int (length [''alice'', ''bob''])) \<and>
   (1 :: int) \<le> 1 \<and> (1 :: int) \<le> int (length [''alice'', ''bob'']) \<and>
   fst (p_login None sample_world) = Inr () \<and>
   trace (snd (p_login None sample_world)) =
     [Secho (Lit ''Currently logged in as: carol''),
      TwentyOneProvider_new, Check_wallet_file, Wallet_new,
      Rest_client_new (Some sample_identity) PNone, Account_info,
      Secho (Ux Registered_usernames_title),
      Secho (Lit ''1- alice''), Secho (Lit ''2- bob''),
      Prompt Login_prompt,
      Secho (Ux_format Login_prompt_invalid_user [PInt 1, PInt 2]),
      Prompt Login_prompt,
      Secho (Lit ''Logging in alice''), Config_load,
      Config_update_key ''username'' ''alice'',
      Config_update_key ''mining_auth_pubkey''
        ''Anm+Zn753LusVaBilc6HCwcCm/zbLc4o2VnygVsW+BeY'',
      Config_save] \<and>
   disk (snd (p_login None sample_world)) ''username'' = Some (PStr ''alice'') \<and>
   answers_int (snd (p_login None sample_world)) = []"
  using login_interactive_selection
    [where w = sample_world and current = "PStr ''carol''" and m = sample_identity
       and pre = "[TwentyOneProvider_new, Check_wallet_file, Wallet_new]"
       and usernames = "[''alice'', ''bob'']" and rejected = "[5]" and i = 1 and rest = "[]"]
  by (simp add: sample_world_def save_config_result str_nat.simps sample_identity_def
      b64_char_def b64_alphabet_def)

subsection \<open>Explicit username\<close>

lemma login_with_machine_auth_explicit:
  assumes "account_info_response w = Inr usernames" and "usernames \<noteq> []"
  shows "login_with_machine_auth (Some u) m w =
     (if u \<in> set usernames
      then save_config m u
             (w\<lparr>trace := trace w @ [Rest_client_new (Some m) PNone, Account_info]\<rparr>)
      else (Inr (),
            w\<lparr>trace := trace w @
               [Rest_client_new (Some m) PNone, Account_info,
                Secho (Ux_format Login_prompt_user_does_not_exist [PStr u])]\<rparr>))"
  using assms
  by (simp add: login_with_machine_auth_def io_bind_account_info secho_def emit_def)

lemma login_with_machine_auth_empty:
  assumes "account_info_response w = Inr []"
  shows "login_with_machine_auth user m w =
     create_wallet_and_account
       (w\<lparr>trace := trace w @ [Rest_client_new (Some m) PNone, Account_info]\<rparr>)"
  using assms by (simp add: login_with_machine_auth_def io_bind_account_info)

text \<open>
  C2. Take a run of \<^verbatim>\<open>_login\<close> with an explicit username \<open>u\<close> that reaches the account
  lookup and receives a list of usernames of which \<open>u\<close> is a member (equality of strings,
  so the match is exact and case-sensitive). The run is the call of \<^verbatim>\<open>save_config\<close>
  with \<open>u\<close> itself, right after the account lookup. No answer of the terminal is consumed
  and no prompt, visible or hidden, is among the effects of the run.
\<close>

theorem login_explicit_username_selected:
  assumes "attrs (cfg w) ''username'' = Some current"
    and "machine_auth_attr (cfg w) = Some m \<and> pre = [] \<or>
         machine_auth_attr (cfg w) = None \<and> wallet_file w = Some m \<and>
         pre = [TwentyOneProvider_new, Check_wallet_file, Wallet_new]"
    and "account_info_response w = Inr usernames"
    and "u \<in> set usernames"
  shows "p_login (Some u) w =
     save_config m u
       (w\<lparr>trace := trace w @
          (if truthy current
           then [Secho (Lit (''Currently logged in as: '' @ str_pyval current))] else []) @
          pre @ [Rest_client_new (Some m) PNone, Account_info]\<rparr>) \<and>
     answers_int (snd (p_login (Some u) w)) = answers_int w \<and>
     answers_str (snd (p_login (Some u) w)) = answers_str w \<and>
     (\<forall>t. Prompt t \<notin> set (drop (length (trace w)) (trace (snd (p_login (Some u) w)))) \<and>
          Prompt_hidden t \<notin> set (drop (length (trace w)) (trace (snd (p_login (Some u) w)))))"
proof -
  from assms(4) have ne: "usernames \<noteq> []" by auto
  have run: "p_login (Some u) w =
     save_config m u
       (w\<lparr>trace := trace w @
          (if truthy current
           then [Secho (Lit (''Currently logged in as: '' @ str_pyval current))] else []) @
          pre @ [Rest_client_new (Some m) PNone, Account_info]\<rparr>)"
    using assms(3,4) ne
    by (simp add: p_login_reaches_account_lookup [OF assms(1,2)]
        login_with_machine_auth_explicit [where usernames = usernames])
  from assms(2) have pre: "pre = [] \<or> pre = [TwentyOneProvider_new, Check_wallet_file, Wallet_new]"
    by auto
  from pre show ?thesis
    unfolding run by (auto simp: save_config_result)
qed

text \<open>
  The sample world with the explicit username \<^verbatim>\<open>bob\<close>: \<^verbatim>\<open>bob\<close> is saved and both
  answers of the terminal are still unread.
\<close>

theorem login_explicit_username_selected_witness:
  "attrs (cfg sample_world) ''username'' = Some (PStr ''carol'') \<and>
   machine_auth_attr (cfg sample_world) = None \<and>
   wallet_file sample_world = Some sample_identity \<and>
   account_info_response sample_world = Inr [''alice'', ''bob''] \<and>
   ''bob'' \<in> set [''alice'', ''bob''] \<and>
   fst (p_login (Some ''bob'') sample_world) = Inr () \<and>
   trace (snd (p_login (Some ''bob'') sample_world)) =
     [Secho (Lit ''Currently logged in as: carol''),
      TwentyOneProvider_new, Check_wallet_file, Wallet_new,
      Rest_client_new (Some sample_identity) PNone, Account_info,
      Secho (Lit ''Logging in bob''), Config_load,
      Config_update_key ''username'' ''bob'',
      Config_update_key ''mining_auth_pubkey''
        ''Anm+Zn753LusVaBilc6HCwcCm/zbLc4o2VnygVsW+BeY'',
      Config_save] \<and>
   disk (snd (p_login (Some ''bob'') sample_world)) ''username'' = Some (PStr ''bob'') \<and>
   answers_int (snd (p_login (Some ''bob'') sample_world)) = [5, 1]"
  using login_explicit_username_selected
    [where w = sample_world and current = "PStr ''carol''" and m = sample_identity
       and pre = "[TwentyOneProvider_new, Check_wallet_file, Wallet_new]"
       and usernames = "[''alice'', ''bob'']" and u = "''bob''"]
  by (simp add: sample_world_def save_config_result sample_identity_def
      b64_char_def b64_alphabet_def)

text \<open>
  C3. Take a run of \<^verbatim>\<open>_login\<close> with an explicit username \<open>u\<close> that reaches the account
  lookup and receives a non-empty list of usernames of which \<open>u\<close> is not a member. The run
  prints \<^verbatim>\<open>login_prompt_user_does_not_exist.format(u)\<close> and returns. The world it leaves
  differs from the one it started in by the trace alone: the config object and its backing
  store are the same, and no \<^verbatim>\<open>load\<close>, \<^verbatim>\<open>update_key\<close> or \<^verbatim>\<open>save\<close> is among the
  effects. The list has to be non-empty: the test \<^verbatim>\<open>len(usernames) == 0\<close> comes first
  in the source, as the run after this one shows.
\<close>

theorem login_unknown_username_aborts:
  assumes "attrs (cfg w) ''username'' = Some current"
    and "machine_auth_attr (cfg w) = Some m \<and> pre = [] \<or>
         machine_auth_attr (cfg w) = None \<and> wallet_file w = Some m \<and>
         pre = [TwentyOneProvider_new, Check_wallet_file, Wallet_new]"
    and "account_info_response w = Inr usernames"
    and "usernames \<noteq> []"
    and "u \<notin> set usernames"
  shows "p_login (Some u) w =
     (Inr (),
      w\<lparr>trace := trace w @
         (if truthy current
          then [Secho (Lit (''Currently logged in as: '' @ str_pyval current))] else []) @
         pre @
         [Rest_client_new (Some m) PNone, Account_info,
          Secho (Ux_format Login_prompt_user_does_not_exist [PStr u])]\<rparr>)"
  using assms(3,4,5)
  by (simp add: p_login_reaches_account_lookup [OF assms(1,2)]
      login_with_machine_auth_explicit [where usernames = usernames])

text \<open>The sample world with the explicit username \<^verbatim>\<open>dave\<close>, who has no account.\<close>

theorem login_unknown_username_aborts_witness:
  "attrs (cfg sample_world) ''username'' = Some (PStr ''carol'') \<and>
   machine_auth_attr (cfg sample_world) = None \<and>
   wallet_file sample_world = Some sample_identity \<and>
   account_info_response sample_world = Inr [''alice'', ''bob''] \<and>
   ''dave'' \<notin> set [''alice'', ''bob''] \<and>
   p_login (Some ''dave'') sample_world =
     (Inr (),
      sample_world\<lparr>trace :=
        [Secho (Lit ''Currently logged in as: carol''),
         TwentyOneProvider_new, Check_wallet_file, Wallet_new,
         Rest_client_new (Some sample_identity) PNone, Account_info,
         Secho (Ux_format Login_prompt_user_does_not_exist [PStr ''dave''])]\<rparr>)"
  using login_unknown_username_aborts
    [where w = sample_world and current = "PStr ''carol''" and m = sample_identity
       and pre = "[TwentyOneProvider_new, Check_wallet_file, Wallet_new]"
       and usernames = "[''alice'', ''bob'']" and u = "''dave''"]
  by (simp add: sample_world_def)

text \<open>
  C3, without the condition on the list. The account service reports no username at all,
  so \<^verbatim>\<open>dave\<close> is not a member. The run goes to \<^verbatim>\<open>create_wallet_and_account\<close> and
  prints no message about \<^verbatim>\<open>dave\<close>.
\<close>

theorem login_unknown_username_empty_accounts_counterexample:
  "''dave'' \<notin> set ([] :: string list) \<and>
   p_login (Some ''dave'') (sample_world\<lparr>account_info_response := Inr []\<rparr>) =
     (Inr (),
      sample_world\<lparr>account_info_response := Inr [],
        trace :=
          [Secho (Lit ''Currently logged in as: carol''),
           TwentyOneProvider_new, Check_wallet_file, Wallet_new,
           Rest_client_new (Some sample_identity) PNone, Account_info,
           Config_new, Check_setup_twentyone_account]\<rparr>) \<and>
   Secho (Ux_format Login_prompt_user_does_not_exist [PStr ''dave''])
     \<notin> set (trace (snd (p_login (Some ''dave'')
                (sample_world\<lparr>account_info_response := Inr []\<rparr>))))"
proof -
  have run: "p_login (Some ''dave'') (sample_world\<lparr>account_info_response := Inr []\<rparr>) =
     (Inr (),
      sample_world\<lparr>account_info_response := Inr [],
        trace :=
          [Secho (Lit ''Currently logged in as: carol''),
           TwentyOneProvider_new, Check_wallet_file, Wallet_new,
           Rest_client_new (Some sample_identity) PNone, Account_info,
           Config_new, Check_setup_twentyone_account]\<rparr>)"
    by (simp add: p_login_def io_bind_config_getattr io_bind_wallet_new
        login_with_machine_auth_def io_bind_account_info create_wallet_and_account_result
        sample_world_def)
  show ?thesis unfolding run by simp
qed

subsection \<open>Empty account set\<close>

text \<open>
  C4. Take a run of \<^verbatim>\<open>_login\<close>, with or without an explicit username, that reaches the
  account lookup and receives the empty list. The run is the call of
  \<^verbatim>\<open>create_wallet_and_account\<close> right after the account lookup, and nothing follows it.
  The effects of the whole run are listed: \<^verbatim>\<open>check_setup_twentyone_account\<close> is called
  once, there is no prompt and no \<^verbatim>\<open>load\<close>, \<^verbatim>\<open>update_key\<close> or \<^verbatim>\<open>save\<close>, and the
  config object, its backing store and the answers of the terminal are as before. When
  the account creation ends normally, so does the run. What the account creation does
  inside its own library is not part of the module.
\<close>

theorem login_empty_account_set:
  assumes "attrs (cfg w) ''username'' = Some current"
    and "machine_auth_attr (cfg w) = Some m \<and> pre = [] \<or>
         machine_auth_attr (cfg w) = None \<and> wallet_file w = Some m \<and>
         pre = [TwentyOneProvider_new, Check_wallet_file, Wallet_new]"
    and "account_info_response w = Inr []"
  shows "p_login user w =
     create_wallet_and_account
       (w\<lparr>trace := trace w @
          (if truthy current
           then [Secho (Lit (''Currently logged in as: '' @ str_pyval current))] else []) @
          pre @ [Rest_client_new (Some m) PNone, Account_info]\<rparr>) \<and>
     snd (p_login user w) =
       w\<lparr>trace := trace w @
          (if truthy current
           then [Secho (Lit (''Currently logged in as: '' @ str_pyval current))] else []) @
          pre @
          [Rest_client_new (Some m) PNone, Account_info,
           Config_new, Check_setup_twentyone_account]\<rparr> \<and>
     (setup_outcome w = Inr () \<longrightarrow> fst (p_login user w) = Inr ())"
  using assms(3)
  by (simp add: p_login_reaches_account_lookup [OF assms(1,2)] login_with_machine_auth_empty
      create_wallet_and_account_result)

text \<open>The sample world with an account service that reports no username.\<close>

theorem login_empty_account_set_witness:
  "attrs (cfg (sample_world\<lparr>account_info_response := Inr []\<rparr>)) ''username''
     = Some (PStr ''carol'') \<and>
   machine_auth_attr (cfg (sample_world\<lparr>account_info_response := Inr []\<rparr>)) = None \<and>
   wallet_file (sample_world\<lparr>account_info_response := Inr []\<rparr>) = Some sample_identity \<and>
   account_info_response (sample_world\<lparr>account_info_response := Inr []\<rparr>) = Inr [] \<and>
   setup_outcome (sample_world\<lparr>account_info_response := Inr []\<rparr>) = Inr () \<and>
   p_login None (sample_world\<lparr>account_info_response := Inr []\<rparr>) =
     (Inr (),
      sample_world\<lparr>account_info_response := Inr [],
        trace :=
          [Secho (Lit ''Currently logged in as: carol''),
           TwentyOneProvider_new, Check_wallet_file, Wallet_new,
           Rest_client_new (Some sample_identity) PNone, Account_info,
           Config_new, Check_setup_twentyone_account]\<rparr>)"
  using login_empty_account_set
    [where w = "sample_world\<lparr>account_info_response := Inr []\<rparr>"
       and current = "PStr ''carol''" and m = sample_identity
       and pre = "[TwentyOneProvider_new, Check_wallet_file, Wallet_new]" and user = None]
  by (simp add: sample_world_def prod_eq_iff create_wallet_and_account_result)

subsection \<open>The session config writer\<close>

text \<open>
  C5. For every identity, username and world, \<^verbatim>\<open>save_config\<close> returns normally; its
  config operations are, in this order, one \<^verbatim>\<open>load\<close>, the update of \<^verbatim>\<open>username\<close>, the
  update of \<^verbatim>\<open>mining_auth_pubkey\<close> to the base64 encoding of the compressed public key,
  and one \<^verbatim>\<open>save\<close>. Afterwards both the in-memory view and the backing store are the
  old backing store with both keys set. \<^verbatim>\<open>save_config\<close> is the run of its five
  statements; a run cut short after \<open>k < 5\<close> of them, that is anywhere before the
  \<^verbatim>\<open>save\<close>, leaves the backing store as it was.
\<close>

theorem save_config_both_keys_one_save:
  "save_config machine_auth username w =
     (Inr (),
      w\<lparr>cfg := (cfg w)\<lparr>attrs := (disk w)
             (''username'' \<mapsto> PStr username,
              ''mining_auth_pubkey'' \<mapsto> PStr (b64encode (compressed_bytes machine_auth)))\<rparr>,
        disk := (disk w)
             (''username'' \<mapsto> PStr username,
              ''mining_auth_pubkey'' \<mapsto> PStr (b64encode (compressed_bytes machine_auth))),
        trace := trace w @
          [Secho (Lit (''Logging in '' @ username)), Config_load,
           Config_update_key ''username'' username,
           Config_update_key ''mining_auth_pubkey'' (b64encode (compressed_bytes machine_auth)),
           Config_save]\<rparr>) \<and>
   save_config machine_auth username w =
     io_steps (take 5 (save_config_steps machine_auth username)) w \<and>
   (\<forall>k < 5. disk (snd (io_steps (take k (save_config_steps machine_auth username)) w))
              = disk w)"
proof -
  have len: "length (save_config_steps machine_auth username) = 5"
    by (simp add: save_config_steps_def)
  have whole: "save_config machine_auth username w =
     io_steps (take 5 (save_config_steps machine_auth username)) w"
    by (simp add: save_config_def len)
  have before: "\<forall>k < 5. disk (snd (io_steps (take k (save_config_steps machine_auth username)) w))
              = disk w"
    using save_config_interrupted [of _ machine_auth username w] by (simp add: len)
  from whole before show ?thesis
    by (simp only: save_config_result [symmetric] simp_thms)
qed

text \<open>
  The sample world, cut short after four statements: the in-memory view already holds
  the new username, the backing store still holds the old one and no public key. After
  the whole call the backing store holds both, and the key the module never writes is
  kept.
\<close>

theorem save_config_both_keys_one_save_witness:
  "(4 :: nat) < 5 \<and>
   disk (snd (io_steps (take 4 (save_config_steps sample_identity ''alice'')) sample_world))
     = disk sample_world \<and>
   attrs (cfg (snd (io_steps (take 4 (save_config_steps sample_identity ''alice''))
                      sample_world))) ''username'' = Some (PStr ''alice'') \<and>
   disk sample_world ''username'' = Some (PStr ''carol'') \<and>
   disk sample_world ''mining_auth_pubkey'' = None \<and>
   disk (snd (save_config sample_identity ''alice'' sample_world)) ''username''
     = Some (PStr ''alice'') \<and>
   disk (snd (save_config sample_identity ''alice'' sample_world)) ''mining_auth_pubkey''
     = Some (PStr ''Anm+Zn753LusVaBilc6HCwcCm/zbLc4o2VnygVsW+BeY'') \<and>
   disk (snd (save_config sample_identity ''alice'' sample_world)) ''sellprice''
     = Some (PInt 10000)"
proof -
  have four: "take 4 (save_config_steps sample_identity ''alice'') =
     [secho (Lit (''Logging in '' @ ''alice'')), config_load,
      config_update_key ''username'' ''alice'',
      config_update_key ''mining_auth_pubkey''
        (b64encode (compressed_bytes sample_identity))]"
    by (simp add: save_config_steps_def)
  have key: "b64encode (compressed_bytes sample_identity) =
     ''Anm+Zn753LusVaBilc6HCwcCm/zbLc4o2VnygVsW+BeY''"
    by (simp add: sample_identity_def b64_char_def b64_alphabet_def)
  from save_config_both_keys_one_save [of sample_identity "''alice''" sample_world]
  show ?thesis
    by (simp add: four key io_return_def) (simp add: sample_world_def)
qed

text \<open>
  C6. For every identity, username and world, a second call of \<^verbatim>\<open>save_config\<close> with the
  same identity and username returns normally and leaves the backing store and the config
  object exactly as the first call left them.
\<close>

theorem save_config_idempotent:
  "disk (snd (save_config machine_auth username (snd (save_config machine_auth username w))))
     = disk (snd (save_config machine_auth username w)) \<and>
   cfg (snd (save_config machine_auth username (snd (save_config machine_auth username w))))
     = cfg (snd (save_config machine_auth username w)) \<and>
   fst (save_config machine_auth username (snd (save_config machine_auth username w)))
     = Inr ()"
  by (simp add: save_config_result)

subsection \<open>Account creation\<close>

text \<open>
  C8. \<^verbatim>\<open>create_wallet_and_account\<close> constructs a \<^verbatim>\<open>Config\<close>, calls
  \<^verbatim>\<open>check_setup_twentyone_account\<close> once, and ends as that call ends, with three
  translations: \<^verbatim>\<open>DataProviderUnavailableError\<close> becomes \<^verbatim>\<open>TwoOneError\<close> with
  \<^verbatim>\<open>UxString.Error.connection_cli\<close>, \<^verbatim>\<open>DataProviderError\<close> becomes \<^verbatim>\<open>TwoOneError\<close> with
  \<^verbatim>\<open>UxString.Error.server_err\<close>, and \<^verbatim>\<open>UnloggedException\<close> becomes the exit of the
  process with status 1. Every other exception passes unchanged and a normal return stays
  a normal return. The two provider exceptions are taken as unrelated classes.
\<close>

theorem create_wallet_and_account_outcomes:
  "create_wallet_and_account w =
     (case setup_outcome w of
        Inr u \<Rightarrow> Inr u
      | Inl e \<Rightarrow>
          Inl (if e = DataProviderUnavailableError then TwoOneError Error_connection_cli
               else if e = DataProviderError then TwoOneError Error_server_err
               else if e = UnloggedException then SystemExit 1
               else e),
      w\<lparr>trace := trace w @ [Config_new, Check_setup_twentyone_account]\<rparr>)"
  by (rule create_wallet_and_account_result)

subsection \<open>The dispatcher\<close>



text \<open>
  C9. For every invocation of \<^verbatim>\<open>login\<close> in which \<^verbatim>\<open>setpassword\<close> is not set and
  \<^verbatim>\<open>switchuser\<close> is a non-empty string or \<^verbatim>\<open>accounts\<close> is set, the dispatcher evaluates
  the unbound name \<^verbatim>\<open>_switch_user\<close>: the invocation ends in \<^verbatim>\<open>NameError\<close> and the world
  is untouched, so nothing of \<^verbatim>\<open>_login\<close> has run. The condition on \<^verbatim>\<open>setpassword\<close> is
  needed: that test comes first in the source, as the run after this one shows.
\<close>

theorem login_switch_user_name_error:
  assumes "\<not> setpassword" and "truthy_opt switchuser \<or> accounts"
  shows "login accounts switchuser setpassword username password w =
     (Inl (NameError ''_switch_user''), w)"
  using assms by (simp add: login_def io_raise_def)

text \<open>The sample world with \<^verbatim>\<open>--accounts\<close> and \<^verbatim>\<open>--switchuser bob\<close>.\<close>

theorem login_switch_user_name_error_witness:
  "\<not> False \<and> (truthy_opt (Some ''bob'') \<or> True) \<and>
   login True (Some ''bob'') False None None sample_world =
     (Inl (NameError ''_switch_user''), sample_world)"
  using login_switch_user_name_error
    [of False "Some ''bob''" True None None sample_world]
  by simp

text \<open>
  C9, with \<^verbatim>\<open>--accounts\<close> and \<^verbatim>\<open>--setpassword\<close> together: the dispatcher runs
  \<^verbatim>\<open>_set_password\<close>, which updates the password and returns normally.
\<close>

theorem login_accounts_with_setpassword_counterexample:
  "login True None True None None sample_world =
     (Inr (),
      sample_world\<lparr>trace :=
        [Get_password (PStr ''carol''), TwentyOneProvider_new, Check_wallet_file, Wallet_new,
         Rest_client_new (Some sample_identity) (PStr ''carol''),
         Update_password ''hunter2'']\<rparr>) \<and>
   fst (login True None True None None sample_world) \<noteq> Inl (NameError ''_switch_user'')"
proof -
  have run: "login True None True None None sample_world =
     (Inr (),
      sample_world\<lparr>trace :=
        [Get_password (PStr ''carol''), TwentyOneProvider_new, Check_wallet_file, Wallet_new,
         Rest_client_new (Some sample_identity) (PStr ''carol''),
         Update_password ''hunter2'']\<rparr>)"
    by (simp add: login_def p_set_password_def io_try_def config_hasattr_def
        config_getattr_def get_password_def get_machine_auth_def wallet_new_def
        check_wallet_file_def io_get_def io_bind_def io_seq_def io_return_def emit_def
        sample_world_def)
  show ?thesis unfolding run by simp
qed

subsection \<open>Machine auth without a wallet file\<close>

text \<open>
  C7. The sample world without a wallet file: the config caches no machine auth and
  \<^verbatim>\<open>check_wallet_file\<close> is false. \<^verbatim>\<open>_login\<close> creates wallet and account and stops
  there. \<^verbatim>\<open>_set_password\<close> creates wallet and account as well, but the bare
  \<^verbatim>\<open>return\<close> of \<^verbatim>\<open>get_machine_auth\<close> only hands \<^verbatim>\<open>None\<close> back to it: it goes on to
  construct the REST client with \<^verbatim>\<open>None\<close> as machine auth and to call
  \<^verbatim>\<open>update_password\<close>.
\<close>

theorem set_password_proceeds_without_machine_auth:
  "p_set_password None (sample_world\<lparr>wallet_file := None\<rparr>) =
     (Inr (),
      sample_world\<lparr>wallet_file := None,
        trace :=
          [Get_password (PStr ''carol''), TwentyOneProvider_new, Check_wallet_file,
           Config_new, Check_setup_twentyone_account,
           Rest_client_new None (PStr ''carol''), Update_password ''hunter2'']\<rparr>) \<and>
   p_login None (sample_world\<lparr>wallet_file := None\<rparr>) =
     (Inr (),
      sample_world\<lparr>wallet_file := None,
        trace :=
          [Secho (Lit ''Currently logged in as: carol''),
           TwentyOneProvider_new, Check_wallet_file,
           Config_new, Check_setup_twentyone_account]\<rparr>)"
  by (simp add: p_set_password_def p_login_def io_try_def config_hasattr_def
        config_getattr_def get_password_def get_machine_auth_def check_wallet_file_def
        create_wallet_and_account_result io_get_def io_bind_def io_seq_def io_return_def
        secho_def emit_def sample_world_def)

end
